theory Spec2Isabelle
  imports Complex_Main "HOL-Library.Sublist"
begin

section \<open>Python values shared by the embedded modules\<close>

text \<open>
  A Python \<open>str\<close> is a sequence of Unicode code points and \<open>len\<close> counts code points,
  so text whose length, case or whitespace matters is a list of code points.  Names that
  are only compared for equality (dictionary keys, engine names, method tags) are HOL
  strings.  Python floats are modelled as reals: rounding, infinities and NaN are outside
  the model.
\<close>

type_synonym ustr = "nat list"

definition u :: "string \<Rightarrow> ustr" where
  "u s = map of_char s"

text \<open>An exception object, kept as the text \<open>str(e)\<close> gives.\<close>

datatype exn = Exn ustr


text \<open>\<open>xs[-n:]\<close> for a positive \<open>n\<close>: the last \<open>n\<close> entries, the whole list when it is shorter.\<close>

definition py_last_n :: "nat \<Rightarrow> 'a list \<Rightarrow> 'a list" where
  "py_last_n n xs = drop (length xs - n) xs"

text \<open>
  \<open>sub in s\<close> for two strings: \<open>sub\<close> occurs in \<open>s\<close> as a contiguous run.
\<close>

fun py_in :: "'a list \<Rightarrow> 'a list \<Rightarrow> bool" where
  "py_in sub [] = (sub = [])"
| "py_in sub (c # cs) = (prefix sub (c # cs) \<or> py_in sub cs)"

text \<open>
  \<open>str.isspace\<close> for one code point: the whitespace code points of the Unicode
  database as CPython lists them.
\<close>

definition py_isspace :: "nat \<Rightarrow> bool" where
  "py_isspace c =
     ((0x09 \<le> c \<and> c \<le> 0x0D) \<or> (0x1C \<le> c \<and> c \<le> 0x20) \<or> c = 0x85 \<or> c = 0xA0 \<or>
      c = 0x1680 \<or> (0x2000 \<le> c \<and> c \<le> 0x200A) \<or> c = 0x2028 \<or> c = 0x2029 \<or>
      c = 0x202F \<or> c = 0x205F \<or> c = 0x3000)"

definition py_strip :: "ustr \<Rightarrow> ustr" where
  "py_strip s = rev (dropWhile py_isspace (rev (dropWhile py_isspace s)))"

text \<open>
  \<open>str.lower\<close>, one code point at a time.  The table covers Basic Latin, the Latin-1
  Supplement and U+0130 (capital I with dot above), whose lower case is the two code
  points U+0069 U+0307.  Every other code point is left as it is, which is what
  \<open>str.lower\<close> does for uncased code points (digits, punctuation, CJK); cased letters of
  further blocks are not in the table.
\<close>

definition py_lower_cp :: "nat \<Rightarrow> nat list" where
  "py_lower_cp c =
     (if 0x41 \<le> c \<and> c \<le> 0x5A then [c + 32]
      else if 0xC0 \<le> c \<and> c \<le> 0xDE \<and> c \<noteq> 0xD7 then [c + 32]
      else if c = 0x130 then [0x69, 0x307]
      else [c])"

definition py_lower :: "ustr \<Rightarrow> ustr" where
  "py_lower s = concat (map py_lower_cp s)"

section \<open>action\_system.py: the bounded operation history\<close>

record 'p ActionResult =
  ar_success :: bool
  ar_message :: ustr
  ar_data :: 'p
  ar_timestamp :: real

record 'p OperationRecord =
  rec_action_type :: string
  rec_params :: 'p
  rec_success :: bool
  rec_message :: ustr
  rec_execution_time :: real
  rec_timestamp :: real

text \<open>
  \<open>ActionSystem._record_action\<close>.  The history is the list \<open>self.action_history\<close>;
  \<open>now\<close> is the value \<open>time.time()\<close> returns while the record is built.
\<close>

definition make_record ::
  "string \<Rightarrow> 'p \<Rightarrow> 'p ActionResult \<Rightarrow> real \<Rightarrow> real \<Rightarrow> 'p OperationRecord" where
  "make_record action_type params result execution_time now =
     \<lparr> rec_action_type = action_type, rec_params = params,
       rec_success = ar_success result, rec_message = ar_message result,
       rec_execution_time = execution_time, rec_timestamp = now \<rparr>"

definition record_action ::
  "'p OperationRecord list \<Rightarrow> string \<Rightarrow> 'p \<Rightarrow> 'p ActionResult \<Rightarrow> real \<Rightarrow> real
     \<Rightarrow> 'p OperationRecord list" where
  "record_action action_history action_type params result execution_time now =
     (let appended = action_history @ [make_record action_type params result execution_time now]
      in if length appended > 1000 then py_last_n 500 appended else appended)"

section \<open>screen\_capture.py: capture\_region\<close>

text \<open>
  The calls into pyautogui, OpenCV and the clock are the environment of the function.
  Each may raise; \<open>Inl\<close> is the exception.  The image type is left open.
\<close>

record 'img capture_env =
  VISION_AVAILABLE :: bool
  pyautogui_size :: "exn + int \<times> int"
  pyautogui_screenshot :: "int \<times> int \<times> int \<times> int \<Rightarrow> exn + 'img"
  cv2_cvtColor :: "'img \<Rightarrow> exn + 'img"
  cv2_imwrite :: "'img \<Rightarrow> exn + unit"
  time_time :: real

text \<open>
  The fields of \<open>ScreenCapture\<close> the function writes, and a log of the regions handed to
  \<open>pyautogui.screenshot\<close>, which records every screenshot the function takes.
\<close>

record 'img capture_state =
  screenshot_count :: int
  last_screenshot :: "'img option"
  last_screenshot_time :: "real option"
  screenshots_taken :: "(int \<times> int \<times> int \<times> int) list"

text \<open>
  The body of the \<open>try\<close> block: the exception it may raise (or the returned value) and
  the state at that point.
\<close>

definition capture_region_try ::
  "'img capture_env \<Rightarrow> 'img capture_state \<Rightarrow> int \<Rightarrow> int \<Rightarrow> int \<Rightarrow> int
     \<Rightarrow> (exn + 'img option) \<times> 'img capture_state" where
  "capture_region_try env st x y width height =
     (case pyautogui_size env of
        Inl e \<Rightarrow> (Inl e, st)
      | Inr (screen_width, screen_height) \<Rightarrow>
          if x < 0 \<or> y < 0 \<or> x + width > screen_width \<or> y + height > screen_height
          then (Inr None, st)
          else
            let st1 = st\<lparr>screenshots_taken := screenshots_taken st @ [(x, y, width, height)]\<rparr>
            in (case pyautogui_screenshot env (x, y, width, height) of
                  Inl e \<Rightarrow> (Inl e, st1)
                | Inr region_screenshot \<Rightarrow>
                    (case cv2_cvtColor env region_screenshot of
                       Inl e \<Rightarrow> (Inl e, st1)
                     | Inr region_cv \<Rightarrow>
                         (case cv2_imwrite env region_cv of
                            Inl e \<Rightarrow> (Inl e, st1)
                          | Inr _ \<Rightarrow>
                              (Inr (Some region_cv),
                               st1\<lparr>screenshot_count := screenshot_count st1 + 1,
                                   last_screenshot := Some region_cv,
                                   last_screenshot_time := Some (time_time env)\<rparr>)))))"

text \<open>
  \<open>ScreenCapture.capture_region\<close>: the availability guard, then the \<open>try\<close> block with
  its \<open>except Exception\<close> handler, which returns \<open>None\<close>.  The result type keeps a place
  for an exception that would leave the function.  The name of the file the screenshot
  is written to has no part in the result and is left out.
\<close>

definition capture_region ::
  "'img capture_env \<Rightarrow> 'img capture_state \<Rightarrow> int \<Rightarrow> int \<Rightarrow> int \<Rightarrow> int
     \<Rightarrow> (exn + 'img option) \<times> 'img capture_state" where
  "capture_region env st x y width height =
     (if \<not> VISION_AVAILABLE env then (Inr None, st)
      else (case capture_region_try env st x y width height of
              (Inl e, st') \<Rightarrow> (Inr None, st')
            | (Inr r, st') \<Rightarrow> (Inr r, st')))"

section \<open>ocr\_engine.py: locating a text among the recognised texts\<close>

record Position =
  pos_x :: int
  pos_y :: int
  pos_width :: int
  pos_height :: int
  pos_center_x :: int
  pos_center_y :: int

text \<open>One entry of the list \<open>read_screen_text\<close> returns.\<close>

record TextInfo =
  ti_text :: ustr
  ti_position :: Position
  ti_confidence :: int
  ti_level :: int

text \<open>An entry of \<open>find_text_location\<close>: the text entry with its match type and score.\<close>

record TextMatch = TextInfo +
  match_type :: string
  match_score :: real

definition with_match :: "TextInfo \<Rightarrow> string \<Rightarrow> real \<Rightarrow> TextMatch" where
  "with_match text_info mt score =
     TextInfo.extend text_info \<lparr>match_type = mt, match_score = score\<rparr>"

text \<open>
  The regular expression \<open>[^\w]\<close> removes every code point that is not a word character:
  a word character is an alphanumeric one or the underscore.  The alphanumeric table of
  the Unicode database is a parameter, \<open>isalnum\<close>.
\<close>

definition re_sub_nonword :: "(nat \<Rightarrow> bool) \<Rightarrow> ustr \<Rightarrow> ustr" where
  "re_sub_nonword isalnum s = filter (\<lambda>c. isalnum c \<or> c = 0x5F) s"

definition fuzzy_match :: "(nat \<Rightarrow> bool) \<Rightarrow> ustr \<Rightarrow> ustr \<Rightarrow> bool" where
  "fuzzy_match isalnum text1 text2 =
     (let clean1 = re_sub_nonword isalnum (py_lower text1);
          clean2 = re_sub_nonword isalnum (py_lower text2)
      in if length clean1 \<ge> 2 \<and> length clean2 \<ge> 2
         then py_in clean1 clean2 \<or> py_in clean2 clean1
         else False)"

text \<open>
  The edit-distance table of \<open>_calculate_similarity\<close>, one row at a time: \<open>dp_row\<close>
  fills row \<open>i\<close> from row \<open>i - 1\<close> (\<open>prev\<close> is that row from column \<open>j - 1\<close> on, \<open>left\<close>
  is the entry just written).
\<close>

fun dp_row :: "nat \<Rightarrow> ustr \<Rightarrow> nat list \<Rightarrow> nat \<Rightarrow> nat list" where
  "dp_row c1 (c2 # text2) (diag # up # prev) left =
     (let v = (if c1 = c2 then diag else min up (min left diag) + 1)
      in v # dp_row c1 text2 (up # prev) v)"
| "dp_row c1 text2 prev left = []"

fun dp_rows :: "ustr \<Rightarrow> ustr \<Rightarrow> nat \<Rightarrow> nat list \<Rightarrow> nat list" where
  "dp_rows [] text2 i prev = prev"
| "dp_rows (c1 # text1) text2 i prev = dp_rows text1 text2 (Suc i) (i # dp_row c1 text2 prev i)"

definition edit_distance :: "ustr \<Rightarrow> ustr \<Rightarrow> nat" where
  "edit_distance text1 text2 = last (dp_rows text1 text2 1 [0..<Suc (length text2)])"

definition calculate_similarity :: "ustr \<Rightarrow> ustr \<Rightarrow> real" where
  "calculate_similarity text1 text2 =
     (let len1 = length text1; len2 = length text2
      in if len1 = 0 \<or> len2 = 0 then 0
         else let max_len = max len1 len2;
                  similarity = 1 - real (edit_distance text1 text2) / real max_len
              in max 0 similarity)"

text \<open>
  The matching loop of \<open>find_text_location\<close> over the recognised texts: exact match,
  then containment of the lower-cased target in the lower-cased text with the score
  \<open>len(target_text) / len(text)\<close>, then the fuzzy match.  \<open>Inl\<close> is the exception the
  division raises on an empty text.
\<close>

fun find_matches :: "(nat \<Rightarrow> bool) \<Rightarrow> bool \<Rightarrow> ustr \<Rightarrow> TextInfo list \<Rightarrow> exn + TextMatch list" where
  "find_matches isalnum fuzzy target_text [] = Inr []"
| "find_matches isalnum fuzzy target_text (text_info # rest) =
     (let text = ti_text text_info;
          here =
            (if target_text = text then Inr [with_match text_info ''exact'' 1]
             else if py_in (py_lower target_text) (py_lower text) then
               (if length text = 0 then Inl (Exn (u ''division by zero''))
                else Inr [with_match text_info ''contains''
                            (real (length target_text) / real (length text))])
             else if fuzzy \<and> fuzzy_match isalnum target_text text then
               (let score = calculate_similarity target_text text
                in if score > 0.6 then Inr [with_match text_info ''fuzzy'' score] else Inr [])
             else Inr [])
      in case here of
           Inl e \<Rightarrow> Inl e
         | Inr ms \<Rightarrow>
             (case find_matches isalnum fuzzy target_text rest of
                Inl e \<Rightarrow> Inl e
              | Inr ms' \<Rightarrow> Inr (ms @ ms')))"

text \<open>
  \<open>OCREngine.find_text_location\<close>.  \<open>all_texts\<close> is what \<open>read_screen_text\<close> returned
  for the image; the matches are sorted by score, best first (the sort is stable), and
  any exception gives the empty list.
\<close>

definition find_text_location ::
  "(nat \<Rightarrow> bool) \<Rightarrow> bool \<Rightarrow> TextInfo list \<Rightarrow> ustr \<Rightarrow> bool \<Rightarrow> TextMatch list" where
  "find_text_location isalnum OCR_AVAILABLE all_texts target_text fuzzy =
     (if \<not> OCR_AVAILABLE then []
      else if all_texts = [] then []
      else (case find_matches isalnum fuzzy target_text all_texts of
              Inl e \<Rightarrow> []
            | Inr matches \<Rightarrow> sort_key (\<lambda>m. - match_score m) matches))"

section \<open>element\_detector.py: candidates, scores and deduplication\<close>

record Element =
  el_position :: Position
  el_confidence :: real
  el_detection_method :: string
  el_element_type :: string
  el_text :: "ustr option"

definition expand_button_area :: "Position \<Rightarrow> Position" where
  "expand_button_area text_pos =
     (let padding = 10
      in \<lparr> pos_x = max 0 (pos_x text_pos - padding),
           pos_y = max 0 (pos_y text_pos - padding),
           pos_width = pos_width text_pos + 2 * padding,
           pos_height = pos_height text_pos + 2 * padding,
           pos_center_x = pos_center_x text_pos,
           pos_center_y = pos_center_y text_pos \<rparr>)"

text \<open>
  \<open>_find_button_by_text\<close>: one button per match of the OCR engine, the text box grown
  by the padding, the confidence the match score times 0.9.
\<close>

definition button_of_match :: "TextMatch \<Rightarrow> Element" where
  "button_of_match m =
     \<lparr> el_position = expand_button_area (ti_position m),
       el_confidence = match_score m * 0.9,
       el_detection_method = ''text_recognition'',
       el_element_type = ''button'',
       el_text = Some (ti_text m) \<rparr>"

definition find_button_by_text ::
  "(nat \<Rightarrow> bool) \<Rightarrow> bool \<Rightarrow> TextInfo list \<Rightarrow> ustr \<Rightarrow> Element list" where
  "find_button_by_text isalnum OCR_AVAILABLE all_texts button_text =
     map button_of_match (find_text_location isalnum OCR_AVAILABLE all_texts button_text True)"

text \<open>
  What OpenCV and NumPy measure on the region \<open>image[y:y+h, x:x+w]\<close> for the button
  score: the number of array entries, the number of edge pixels and the standard
  deviation of the grey values (\<open>Inl\<close> when a call raises).  Every exception inside
  \<open>_calculate_button_score\<close>, the division by \<open>w * h = 0\<close> included, is caught and gives
  the score 0.0.
\<close>

record button_probe =
  bp_region_size :: nat
  bp_measured :: "exn + nat \<times> real"

definition calculate_button_score :: "button_probe \<Rightarrow> int \<Rightarrow> int \<Rightarrow> real" where
  "calculate_button_score probe w h =
     (if bp_region_size probe = 0 then 0
      else (case bp_measured probe of
              Inl e \<Rightarrow> 0
            | Inr (edge_pixels, std_dev) \<Rightarrow>
                if w * h = 0 then 0
                else
                  let edge_ratio = real edge_pixels / real_of_int (w * h);
                      score1 = (if 0.1 < edge_ratio \<and> edge_ratio < 0.5 then 0.3 else 0);
                      score2 = (if std_dev < 30 then score1 + 0.3 else score1);
                      score3 = (if 20 < w \<and> w < 200 \<and> 15 < h \<and> h < 60 then score2 + 0.4 else score2)
                  in min 1 score3))"

text \<open>
  The measurements for the input score: the vertex counts of the polygons fitted to the
  region's contours, and the mean grey value.  Here too every exception, the division
  \<open>w / h\<close> by zero included, gives the score 0.0.
\<close>

record input_probe =
  ip_region_size :: nat
  ip_measured :: "exn + nat list \<times> real"

definition calculate_input_score :: "input_probe \<Rightarrow> int \<Rightarrow> int \<Rightarrow> real" where
  "calculate_input_score probe w h =
     (if ip_region_size probe = 0 then 0
      else if h = 0 then 0
      else
        let aspect_ratio = real_of_int w / real_of_int h;
            score1 = (if 2 < aspect_ratio \<and> aspect_ratio < 15 then 0.4 else 0)
        in (case ip_measured probe of
              Inl e \<Rightarrow> 0
            | Inr (approx_lengths, mean_intensity) \<Rightarrow>
                let score2 = (if 4 \<in> set approx_lengths then score1 + 0.3 else score1);
                    score3 = (if mean_intensity > 200 then score2 + 0.3 else score2)
                in min 1 score3))"

text \<open>\<open>_calculate_overlap\<close>: intersection over union of two boxes.\<close>

definition calculate_overlap :: "Position \<Rightarrow> Position \<Rightarrow> real" where
  "calculate_overlap pos1 pos2 =
     (let x1 = max (pos_x pos1) (pos_x pos2);
          y1 = max (pos_y pos1) (pos_y pos2);
          x2 = min (pos_x pos1 + pos_width pos1) (pos_x pos2 + pos_width pos2);
          y2 = min (pos_y pos1 + pos_height pos1) (pos_y pos2 + pos_height pos2)
      in if x2 \<le> x1 \<or> y2 \<le> y1 then 0
         else
           let intersection = (x2 - x1) * (y2 - y1);
               area1 = pos_width pos1 * pos_height pos1;
               area2 = pos_width pos2 * pos_height pos2;
               union = area1 + area2 - intersection
           in if union > 0 then real_of_int intersection / real_of_int union else 0)"

text \<open>
  \<open>_deduplicate_elements\<close>.  \<open>dedup_scan\<close> is the inner loop over the elements kept so
  far: at the first one that overlaps the new element by more than 0.7 the loop stops,
  after replacing it by the new element when the new one has the higher confidence
  (\<open>list.remove\<close> takes out the first equal entry, the new element goes to the end).
\<close>

fun dedup_scan :: "Element \<Rightarrow> Element list \<Rightarrow> Element list \<Rightarrow> bool \<times> Element list" where
  "dedup_scan element [] unique_elements = (False, unique_elements)"
| "dedup_scan element (existing # rest) unique_elements =
     (if calculate_overlap (el_position element) (el_position existing) > 0.7
      then (True,
            if el_confidence element > el_confidence existing
            then remove1 existing unique_elements @ [element]
            else unique_elements)
      else dedup_scan element rest unique_elements)"

definition dedup_step :: "Element list \<Rightarrow> Element \<Rightarrow> Element list" where
  "dedup_step unique_elements element =
     (case dedup_scan element unique_elements unique_elements of
        (is_duplicate, unique_elements') \<Rightarrow>
          if \<not> is_duplicate then unique_elements' @ [element] else unique_elements')"

definition deduplicate_elements :: "Element list \<Rightarrow> Element list" where
  "deduplicate_elements elements =
     (if elements = [] then [] else foldl dedup_step [] elements)"

text \<open>
  The end of \<open>find_button\<close>, \<open>find_input_field\<close> and \<open>find_clickable_elements\<close>: the
  candidates of all strategies are deduplicated and sorted by confidence, best first.
\<close>

definition dedup_and_sort :: "Element list \<Rightarrow> Element list" where
  "dedup_and_sort elements = sort_key (\<lambda>e. - el_confidence e) (deduplicate_elements elements)"

text \<open>
  \<open>_find_button_by_template\<close>.  \<open>match_result\<close> is what \<open>cv2.matchTemplate\<close> gives:
  the score at every location \<open>(x, y)\<close>, in the row-by-row order \<open>np.where\<close> lists them
  (\<open>Inl\<close> when OpenCV raises).  Every location whose score reaches the threshold
  (\<open>self.confidence_threshold\<close>, 0.7) becomes a button with that score as confidence.
\<close>

definition template_button :: "int \<times> int \<Rightarrow> real \<Rightarrow> int \<Rightarrow> int \<Rightarrow> Element" where
  "template_button pt score template_w template_h =
     \<lparr> el_position =
         \<lparr> pos_x = fst pt, pos_y = snd pt, pos_width = template_w, pos_height = template_h,
           pos_center_x = fst pt + template_w div 2,
           pos_center_y = snd pt + template_h div 2 \<rparr>,
       el_confidence = score,
       el_detection_method = ''template_matching'',
       el_element_type = ''button'',
       el_text = None \<rparr>"

definition find_button_by_template ::
  "(exn + ((int \<times> int) \<times> real) list) \<Rightarrow> int \<Rightarrow> int \<Rightarrow> real \<Rightarrow> Element list" where
  "find_button_by_template match_result template_w template_h confidence_threshold =
     (case match_result of
        Inl e \<Rightarrow> []
      | Inr scores \<Rightarrow>
          map (\<lambda>(pt, score). template_button pt score template_w template_h)
            (filter (\<lambda>(pt, score). score \<ge> confidence_threshold) scores))"

text \<open>
  \<open>find_button\<close>, given the candidates its three strategies return: they are
  concatenated, deduplicated and sorted.
\<close>

definition find_button :: "bool \<Rightarrow> Element list \<Rightarrow> Element list \<Rightarrow> Element list \<Rightarrow> Element list" where
  "find_button VISION_OK text_buttons template_buttons generic_buttons =
     (if \<not> VISION_OK then []
      else dedup_and_sort (text_buttons @ template_buttons @ generic_buttons))"

section \<open>multi\_ocr\_manager.py: the engine cascade\<close>

text \<open>\<open>sep.join(parts)\<close>.\<close>

fun py_join :: "ustr \<Rightarrow> ustr list \<Rightarrow> ustr" where
  "py_join sep [] = []"
| "py_join sep [x] = x"
| "py_join sep (x # y # ys) = x @ sep @ py_join sep (y # ys)"

text \<open>
  The engine objects of \<open>self.engines\<close>, each with the call the manager makes on it:
  \<^item> PaddleOCR: \<open>ocr\<close> gives \<open>None\<close> (no result) or the recognised texts, line by line;
  \<^item> EasyOCR: \<open>readtext\<close> gives the texts with their confidences;
  \<^item> pytesseract: \<open>image_to_string\<close>;
  \<^item> the built-in engine of \<open>_create_builtin_ocr\<close>, which counts the contours OpenCV finds.
  \<open>Inl\<close> is the exception a call raises.
\<close>

datatype 'img engine =
    PaddleOCR "'img \<Rightarrow> exn + ustr list option"
  | EasyOCR "'img \<Rightarrow> exn + (ustr \<times> real) list"
  | Pytesseract "'img \<Rightarrow> exn + ustr"
  | BuiltinOCR "'img \<Rightarrow> exn + nat"

text \<open>
  \<open>BuiltinOCR.image_to_string\<close>: one of two fixed texts, the second one also when
  OpenCV raises.
\<close>

definition builtin_image_to_string :: "('img \<Rightarrow> exn + nat) \<Rightarrow> 'img \<Rightarrow> ustr" where
  "builtin_image_to_string count_contours img =
     (case count_contours img of
        Inl e \<Rightarrow> [0x5185, 0x7F6E, 0x4F, 0x43, 0x52, 0x6D4B, 0x8BD5, 0x6587, 0x672C]
      | Inr n \<Rightarrow>
          if n > 5 then [0x68C0, 0x6D4B, 0x5230, 0x6587, 0x5B57, 0x533A, 0x57DF]
          else [0x5185, 0x7F6E, 0x4F, 0x43, 0x52, 0x6D4B, 0x8BD5, 0x6587, 0x672C])"

text \<open>
  \<open>_extract_with_engine\<close>.  The engine is looked up by name (a missing key raises), the
  branch is chosen by the name, and the branch calls the method of its engine kind; an
  object without that method raises.
\<close>

definition extract_with_engine ::
  "(string \<rightharpoonup> 'img engine) \<Rightarrow> 'img \<Rightarrow> string \<Rightarrow> exn + ustr" where
  "extract_with_engine engines img engine_name =
     (case engines engine_name of
        None \<Rightarrow> Inl (Exn (u engine_name))
      | Some engine \<Rightarrow>
          if engine_name = ''paddleocr'' then
            (case engine of
               PaddleOCR ocr \<Rightarrow>
                 (case ocr img of
                    Inl e \<Rightarrow> Inl e
                  | Inr None \<Rightarrow> Inr []
                  | Inr (Some lines) \<Rightarrow> Inr (py_join (u '' '') (filter (\<lambda>t. t \<noteq> []) lines)))
             | _ \<Rightarrow> Inl (Exn (u ''object has no attribute ocr'')))
          else if engine_name = ''easyocr'' then
            (case engine of
               EasyOCR readtext \<Rightarrow>
                 (case readtext img of
                    Inl e \<Rightarrow> Inl e
                  | Inr results \<Rightarrow>
                      Inr (py_join (u '' '') (map fst (filter (\<lambda>(t, confidence). confidence > 0.5) results))))
             | _ \<Rightarrow> Inl (Exn (u ''object has no attribute readtext'')))
          else if engine_name = ''tesseract'' \<or> engine_name = ''builtin'' then
            (case engine of
               Pytesseract image_to_string \<Rightarrow> image_to_string img
             | BuiltinOCR count_contours \<Rightarrow> Inr (builtin_image_to_string count_contours img)
             | _ \<Rightarrow> Inl (Exn (u ''object has no attribute image_to_string'')))
          else Inl (Exn ([0x672A, 0x77E5, 0x7684, 0x4F, 0x43, 0x52, 0x5F15, 0x64CE, 0x3A, 0x20] @ u engine_name)))"

record EngineStats =
  es_success :: nat
  es_total :: nat
  es_avg_time :: real

definition update_engine_stats ::
  "(string \<rightharpoonup> EngineStats) \<Rightarrow> string \<Rightarrow> bool \<Rightarrow> real \<Rightarrow> (string \<rightharpoonup> EngineStats)" where
  "update_engine_stats engine_stats engine_name success execution_time =
     (case engine_stats engine_name of
        None \<Rightarrow> engine_stats
      | Some stats \<Rightarrow>
          let total = es_total stats + 1;
              succ = (if success then es_success stats + 1 else es_success stats);
              avg = (if total = 1 then execution_time
                     else (es_avg_time stats * real (total - 1) + execution_time) / real total)
          in engine_stats(engine_name \<mapsto> \<lparr>es_success = succ, es_total = total, es_avg_time = avg\<rparr>))"

definition estimate_confidence :: "(nat \<Rightarrow> bool) \<Rightarrow> ustr \<Rightarrow> string \<Rightarrow> real" where
  "estimate_confidence isalnum text engine_name =
     (if text = [] \<or> length (py_strip text) = 0 then 0
      else
        let base_confidence =
              (if engine_name = ''paddleocr'' then 0.85
               else if engine_name = ''easyocr'' then 0.80
               else if engine_name = ''tesseract'' then 0.75
               else if engine_name = ''builtin'' then 0.60
               else 0.50);
            text_length = length (py_strip text);
            adjusted =
              (if text_length > 10 then base_confidence + 0.05
               else if text_length < 3 then base_confidence - 0.10
               else base_confidence);
            final = (if list_ex isalnum text then adjusted + 0.05 else adjusted)
        in min final 1)"

record OCRResult =
  ocr_text :: ustr
  ocr_confidence :: real
  ocr_engine_used :: "string option"
  ocr_execution_time :: real
  ocr_success :: bool

record 'img MultiOCRManager =
  engines :: "string \<rightharpoonup> 'img engine"
  engine_stats :: "string \<rightharpoonup> EngineStats"
  fallback_order :: "string list"

text \<open>
  The manager \<open>__init__\<close> builds: each of the three library engines when it could be
  loaded, the built-in engine always, and a fresh statistics entry for each.
\<close>

definition init_manager ::
  "('img \<Rightarrow> exn + ustr list option) option \<Rightarrow> ('img \<Rightarrow> exn + (ustr \<times> real) list) option
     \<Rightarrow> ('img \<Rightarrow> exn + ustr) option \<Rightarrow> ('img \<Rightarrow> exn + nat) \<Rightarrow> 'img MultiOCRManager" where
  "init_manager paddle easy tess count_contours =
     (let loaded =
            (case paddle of Some f \<Rightarrow> [(''paddleocr'', PaddleOCR f)] | None \<Rightarrow> []) @
            (case easy of Some f \<Rightarrow> [(''easyocr'', EasyOCR f)] | None \<Rightarrow> []) @
            (case tess of Some f \<Rightarrow> [(''tesseract'', Pytesseract f)] | None \<Rightarrow> []) @
            [(''builtin'', BuiltinOCR count_contours)]
      in \<lparr> engines = map_of loaded,
           engine_stats = map_of (map (\<lambda>(name, e). (name, \<lparr>es_success = 0, es_total = 0, es_avg_time = 0\<rparr>)) loaded),
           fallback_order = [''paddleocr'', ''easyocr'', ''tesseract'', ''builtin''] \<rparr>)"

text \<open>
  The order \<open>extract_text\<close> tries the engines in: the preferred engine first when it is
  given and loaded, then the fallback order without it.  An empty string and an empty
  list count as not given.
\<close>

definition engines_to_try ::
  "'img MultiOCRManager \<Rightarrow> string option \<Rightarrow> string list option \<Rightarrow> string list" where
  "engines_to_try m prefer_engine preferred_engines =
     (let given = (case prefer_engine of None \<Rightarrow> False | Some p \<Rightarrow> p \<noteq> []);
          prefer =
            (case preferred_engines of
               Some (first # _) \<Rightarrow> (if \<not> given then Some first else prefer_engine)
             | _ \<Rightarrow> prefer_engine)
      in case prefer of
           Some p \<Rightarrow>
             if p \<noteq> [] \<and> p \<in> dom (engines m)
             then p # filter (\<lambda>e. e \<noteq> p) (fallback_order m)
             else fallback_order m
         | None \<Rightarrow> fallback_order m)"

definition all_failed :: OCRResult where
  "all_failed = \<lparr> ocr_text = [], ocr_confidence = 0, ocr_engine_used = None,
                   ocr_execution_time = 0, ocr_success = False \<rparr>"

text \<open>
  The loop of \<open>extract_text\<close> over the engines still to try.  \<open>exec_time\<close> is the time
  the clock measures for the attempt with an engine.  Besides the statistics the loop
  carries a log of the engine calls: the name of each engine invoked and the statistics
  as they stand at that moment.
\<close>

fun try_engines ::
  "(nat \<Rightarrow> bool) \<Rightarrow> (string \<rightharpoonup> 'img engine) \<Rightarrow> (string \<Rightarrow> real) \<Rightarrow> 'img \<Rightarrow> string list
     \<Rightarrow> (string \<rightharpoonup> EngineStats) \<Rightarrow> (string \<times> (string \<rightharpoonup> EngineStats)) list
     \<Rightarrow> OCRResult \<times> (string \<rightharpoonup> EngineStats) \<times> (string \<times> (string \<rightharpoonup> EngineStats)) list" where
  "try_engines isalnum engs exec_time img [] stats calls = (all_failed, stats, calls)"
| "try_engines isalnum engs exec_time img (engine_name # rest) stats calls =
     (if engine_name \<notin> dom engs then try_engines isalnum engs exec_time img rest stats calls
      else
        let calls1 = calls @ [(engine_name, stats)];
            execution_time = exec_time engine_name
        in (case extract_with_engine engs img engine_name of
              Inl e \<Rightarrow>
                try_engines isalnum engs exec_time img rest
                  (update_engine_stats stats engine_name False execution_time) calls1
            | Inr result \<Rightarrow>
                let stats1 = update_engine_stats stats engine_name True execution_time
                in if result \<noteq> [] \<and> length (py_strip result) > 0
                   then (\<lparr> ocr_text = py_strip result,
                           ocr_confidence = estimate_confidence isalnum result engine_name,
                           ocr_engine_used = Some engine_name,
                           ocr_execution_time = execution_time,
                           ocr_success = True \<rparr>, stats1, calls1)
                   else try_engines isalnum engs exec_time img rest stats1 calls1))"

text \<open>
  \<open>MultiOCRManager.extract_text\<close>: the returned dictionary, the manager with its
  updated statistics, and the log of engine calls.
\<close>

definition extract_text ::
  "(nat \<Rightarrow> bool) \<Rightarrow> (string \<Rightarrow> real) \<Rightarrow> 'img MultiOCRManager \<Rightarrow> 'img \<Rightarrow> string option
     \<Rightarrow> string list option
     \<Rightarrow> OCRResult \<times> 'img MultiOCRManager \<times> (string \<times> (string \<rightharpoonup> EngineStats)) list" where
  "extract_text isalnum exec_time m img prefer_engine preferred_engines =
     (case try_engines isalnum (engines m) exec_time img
             (engines_to_try m prefer_engine preferred_engines) (engine_stats m) [] of
        (result, stats, calls) \<Rightarrow> (result, m\<lparr>engine_stats := stats\<rparr>, calls))"

text \<open>An attempt with an engine fails when the engine raises or returns only whitespace.\<close>

definition attempt_fails :: "(string \<rightharpoonup> 'img engine) \<Rightarrow> 'img \<Rightarrow> string \<Rightarrow> bool" where
  "attempt_fails engs img engine_name =
     (case extract_with_engine engs img engine_name of
        Inl e \<Rightarrow> True
      | Inr result \<Rightarrow> py_strip result = [])"

text \<open>
  Three managers used as concrete inputs below: one whose Tesseract reads nothing on a
  blank page, one that holds only a Tesseract engine reading a single space, and one whose
  PaddleOCR raises while EasyOCR reads \<open>OK\<close>.
\<close>

definition blank_page_manager :: "unit MultiOCRManager" where
  "blank_page_manager =
     init_manager None None (Some (\<lambda>img. Inr [])) (\<lambda>img. Inr 0)"

definition whitespace_only_manager :: "unit MultiOCRManager" where
  "whitespace_only_manager =
     \<lparr> engines = [''tesseract'' \<mapsto> Pytesseract (\<lambda>img. Inr (u '' ''))],
       engine_stats = [''tesseract'' \<mapsto> \<lparr>es_success = 0, es_total = 0, es_avg_time = 0\<rparr>],
       fallback_order = [''paddleocr'', ''easyocr'', ''tesseract'', ''builtin''] \<rparr>"

definition paddle_down_manager :: "unit MultiOCRManager" where
  "paddle_down_manager =
     init_manager (Some (\<lambda>img. Inl (Exn (u ''out of memory''))))
       (Some (\<lambda>img. Inr [(u ''OK'', 0.9)])) None (\<lambda>img. Inr 0)"

section \<open>intelligent\_retry\_manager.py: classification, strategies and backoff\<close>


text \<open>
  The values a parameter dictionary or a result's data can hold.  \<open>PObject\<close> is any other
  object: it is true in a condition and supports no arithmetic.
\<close>

datatype pyval =
    PNone | PBool bool | PInt int | PFloat real | PStr ustr
  | PTuple "pyval list" | PList "pyval list" | PObject nat










text \<open>
  The strategies change \<open>context.parameters\<close> in place, so a strategy that raises leaves
  the entries it has already written.  A strategy gives the parameters it ends with and
  the exception, if it raised one.
\<close>

type_synonym params = "string \<rightharpoonup> pyval"






















section \<open>intelligent\_retry\_manager.py: execute\_with\_retry\<close>



















section \<open>Properties of the operation history\<close>

lemma length_py_last_n: "length (py_last_n n xs) = min n (length xs)"
  by (simp add: py_last_n_def)

text \<open>
  Claim C8.  After every call of \<open>_record_action\<close> the history holds at most 1000 records,
  whatever its length before; when the appended list is longer than 1000 (the 1001st
  record) the history becomes exactly its last 500 records, the new record last and the
  oldest ones dropped.
\<close>

theorem record_action_bounded:
  "length (record_action h t p r e now) \<le> 1000 \<and>
   (length h + 1 > 1000 \<longrightarrow>
      record_action h t p r e now = drop (length h - 499) (h @ [make_record t p r e now]) \<and>
      length (record_action h t p r e now) = 500 \<and>
      last (record_action h t p r e now) = make_record t p r e now \<and>
      (\<forall>i < 500. record_action h t p r e now ! i = (h @ [make_record t p r e now]) ! (length h - 499 + i)))"
proof -
  let ?a = "h @ [make_record t p r e now]"
  have len: "length (record_action h t p r e now) \<le> 1000"
    by (simp add: record_action_def Let_def length_py_last_n)
  have over: "record_action h t p r e now = drop (length h - 499) ?a" if "length h + 1 > 1000"
  proof -
    have "length ?a - 500 = length h - 499" by simp
    then show ?thesis using that by (simp add: record_action_def Let_def py_last_n_def)
  qed
  have l500: "length (drop (length h - 499) ?a) = 500" if "length h + 1 > 1000"
    using that by simp
  have lst: "last (drop (length h - 499) ?a) = make_record t p r e now" if "length h + 1 > 1000"
    using that by simp
  have nth: "drop (length h - 499) ?a ! i = ?a ! (length h - 499 + i)" if "i < 500" "length h + 1 > 1000" for i
    by (rule nth_drop) (use that in simp)
  show ?thesis using len over l500 lst nth by simp
qed

theorem record_action_bounded_witness:
  "length (record_action (replicate 1000 (make_record ''click'' () \<lparr>ar_success = True, ar_message = [], ar_data = (), ar_timestamp = 0\<rparr> 0 0))
      ''type'' () \<lparr>ar_success = False, ar_message = [], ar_data = (), ar_timestamp = 1\<rparr> 2 3) = 500 \<and>
   last (record_action (replicate 1000 (make_record ''click'' () \<lparr>ar_success = True, ar_message = [], ar_data = (), ar_timestamp = 0\<rparr> 0 0))
      ''type'' () \<lparr>ar_success = False, ar_message = [], ar_data = (), ar_timestamp = 1\<rparr> 2 3)
     = make_record ''type'' () \<lparr>ar_success = False, ar_message = [], ar_data = (), ar_timestamp = 1\<rparr> 2 3"
  using record_action_bounded [of "replicate 1000 (make_record ''click'' () \<lparr>ar_success = True, ar_message = [], ar_data = (), ar_timestamp = 0\<rparr> 0 0)"
      "''type''" "()" "\<lparr>ar_success = False, ar_message = [], ar_data = (), ar_timestamp = 1\<rparr>" 2 3]
  by simp

section \<open>Properties of capture\_region\<close>

lemma capture_region_try_rejects:
  assumes "pyautogui_size env = Inr (sw, sh)"
    and "x < 0 \<or> y < 0 \<or> x + width > sw \<or> y + height > sh"
  shows "capture_region_try env st x y width height = (Inr None, st)"
  using assms by (simp add: capture_region_try_def)

lemma capture_region_returns:
  "\<exists>r. fst (capture_region env st x y width height) = Inr r"
  by (cases "capture_region_try env st x y width height"; cases "fst (capture_region_try env st x y width height)")
     (simp_all add: capture_region_def)

text \<open>
  Claim C9.  A region with a negative corner, or one that reaches past the width or the
  height \<open>pyautogui.size()\<close> reports, makes \<open>capture_region\<close> return \<open>None\<close> with the
  object's state untouched, so no screenshot is taken (the log of
  \<open>pyautogui.screenshot\<close> calls is part of that state).  The call
  \<open>capture_region(-5, 0, 10, 10)\<close> does so in every environment, whatever the screen
  size is and even when the size cannot be read.  No call lets an exception escape: the
  result is always a returned value.
\<close>

theorem capture_region_out_of_bounds:
  "((x < 0 \<or> y < 0 \<or>
     (\<exists>sw sh. pyautogui_size env = Inr (sw, sh) \<and> (x + width > sw \<or> y + height > sh)))
      \<longrightarrow> capture_region env st x y width height = (Inr None, st)) \<and>
   capture_region env st (- 5) 0 10 10 = (Inr None, st) \<and>
   (\<exists>r. fst (capture_region env st x y width height) = Inr r)"
proof -
  have neg: "capture_region env st a b c d = (Inr None, st)" if "a < 0 \<or> b < 0" for a b c d
  proof -
    obtain r where r: "capture_region_try env st a b c d = (r, st)" "\<And>img. r \<noteq> Inr (Some img)"
    proof (cases "pyautogui_size env")
      case (Inl e)
      then have "capture_region_try env st a b c d = (Inl e, st)"
        by (simp add: capture_region_try_def)
      then show ?thesis using that by blast
    next
      case (Inr sz)
      obtain sw sh where "sz = (sw, sh)" by (cases sz)
      with Inr \<open>a < 0 \<or> b < 0\<close> have "capture_region_try env st a b c d = (Inr None, st)"
        by (intro capture_region_try_rejects [of env sw sh]) auto
      then show ?thesis using that by blast
    qed
    show ?thesis
    proof (cases r)
      case (Inl e)
      with r show ?thesis by (simp add: capture_region_def)
    next
      case (Inr v)
      with r have "v = None" by (cases v) auto
      with Inr r show ?thesis by (simp add: capture_region_def)
    qed
  qed
  have big: "capture_region env st x y width height = (Inr None, st)"
    if "pyautogui_size env = Inr (sw, sh)" "x + width > sw \<or> y + height > sh" for sw sh
    using that capture_region_try_rejects [of env sw sh x y width height st]
    by (simp add: capture_region_def)
  have ret: "\<exists>r. fst (capture_region env st x y width height) = Inr r"
    by (rule capture_region_returns)
  have m5: "capture_region env st (- 5) 0 10 10 = (Inr None, st)"
    using neg [of "- 5" 0 10 10] by simp
  show ?thesis using neg [of x y width height] m5 big ret by blast
qed

theorem capture_region_out_of_bounds_witness:
  "capture_region
     \<lparr>VISION_AVAILABLE = True, pyautogui_size = Inr (1920, 1080),
      pyautogui_screenshot = (\<lambda>r. Inr (0::nat)), cv2_cvtColor = (\<lambda>i. Inr i),
      cv2_imwrite = (\<lambda>i. Inr ()), time_time = 0\<rparr>
     \<lparr>screenshot_count = 0, last_screenshot = None, last_screenshot_time = None,
      screenshots_taken = []\<rparr>
     1900 0 100 10
   = (Inr None,
      \<lparr>screenshot_count = 0, last_screenshot = None, last_screenshot_time = None,
       screenshots_taken = []\<rparr>)"
  using capture_region_out_of_bounds [of 1900 0
      "\<lparr>VISION_AVAILABLE = True, pyautogui_size = Inr (1920, 1080),
        pyautogui_screenshot = (\<lambda>r. Inr (0::nat)), cv2_cvtColor = (\<lambda>i. Inr i),
        cv2_imwrite = (\<lambda>i. Inr ()), time_time = 0\<rparr>" 100 10
      "\<lparr>screenshot_count = 0, last_screenshot = None, last_screenshot_time = None,
        screenshots_taken = []\<rparr>"]
  by simp

section \<open>Properties of the failure classification\<close>








section \<open>Properties of the backoff\<close>



section \<open>Properties of the element detector\<close>

text \<open>
  Claim C1 fails on the code.  Three template matches of a 100 by 50 template at
  \<open>(0, 0)\<close>, \<open>(20, 0)\<close> and \<open>(10, 1)\<close> with scores 0.75, 0.8 and 0.9: the first two
  overlap by 2/3 and are both kept; the third overlaps each of them by 441/559, replaces
  the first one, and the scan stops there, so it is never compared with the second.  The
  list \<open>_deduplicate_elements\<close> returns, and the list \<open>find_button\<close> returns after
  sorting, hold two boxes that overlap by more than 0.7.
\<close>

theorem dedup_keeps_overlapping_pair:
  "deduplicate_elements
     (find_button_by_template (Inr [((0, 0), 0.75), ((20, 0), 0.8), ((10, 1), 0.9)]) 100 50 0.7)
     = [template_button (20, 0) 0.8 100 50, template_button (10, 1) 0.9 100 50] \<and>
   calculate_overlap (el_position (template_button (20, 0) 0.8 100 50))
                     (el_position (template_button (10, 1) 0.9 100 50)) = 441 / 559 \<and>
   (0.7 :: real) < 441 / 559 \<and>
   find_button True []
     (find_button_by_template (Inr [((0, 0), 0.75), ((20, 0), 0.8), ((10, 1), 0.9)]) 100 50 0.7) []
     = [template_button (10, 1) 0.9 100 50, template_button (20, 0) 0.8 100 50]"
  by (simp add: find_button_def dedup_and_sort_def deduplicate_elements_def dedup_step_def
        find_button_by_template_def template_button_def calculate_overlap_def)

text \<open>
  The scores the claim C7 names stay in the unit interval where the code clamps them.
\<close>

lemma estimate_confidence_range:
  "0 \<le> estimate_confidence isalnum t engine_name \<and> estimate_confidence isalnum t engine_name \<le> 1"
  by (simp add: estimate_confidence_def Let_def)

lemma calculate_button_score_range:
  "0 \<le> calculate_button_score probe w h \<and> calculate_button_score probe w h \<le> 1"
  by (simp add: calculate_button_score_def Let_def split: sum.splits prod.splits)

lemma calculate_input_score_range:
  "0 \<le> calculate_input_score probe w h \<and> calculate_input_score probe w h \<le> 1"
  by (simp add: calculate_input_score_def Let_def split: sum.splits prod.splits)

text \<open>
  Claim C7 fails on the code for the text strategy.  \<open>find_text_location\<close> tests
  containment on the lower-cased strings but scores \<open>len(target_text) / len(text)\<close> on the
  original ones.  The recognised text U+0130 is one code point, its lower case is the two
  code points U+0069 U+0307; the target U+0069 U+0307 is contained in it, the score is 2,
  and the button gets the confidence 1.8 (whatever the alphanumeric table is), which
  \<open>find_button\<close> returns as it is.
\<close>

theorem text_button_confidence_above_one:
  "map el_confidence
     (find_button_by_text isalnum True
        [\<lparr> ti_text = [0x130],
            ti_position = \<lparr> pos_x = 100, pos_y = 100, pos_width = 40, pos_height = 20,
                             pos_center_x = 120, pos_center_y = 110 \<rparr>,
            ti_confidence = 90, ti_level = 5 \<rparr>]
        [0x69, 0x307])
     = [9 / 5] \<and>
   map el_confidence
     (find_button True
        (find_button_by_text isalnum True
           [\<lparr> ti_text = [0x130],
               ti_position = \<lparr> pos_x = 100, pos_y = 100, pos_width = 40, pos_height = 20,
                                pos_center_x = 120, pos_center_y = 110 \<rparr>,
               ti_confidence = 90, ti_level = 5 \<rparr>]
           [0x69, 0x307])
        [] [])
     = [9 / 5]"
  by (simp add: find_button_by_text_def find_text_location_def with_match_def
        button_of_match_def py_lower_def py_lower_cp_def TextInfo.extend_def
        find_button_def dedup_and_sort_def deduplicate_elements_def dedup_step_def)

section \<open>Properties of the engine cascade\<close>

lemma py_strip_Nil: "py_strip [] = []"
  by (simp add: py_strip_def)

lemma strip_nonempty: "(result \<noteq> [] \<and> length (py_strip result) > 0) \<longleftrightarrow> py_strip result \<noteq> []"
  by (auto simp: py_strip_Nil)

lemma try_engines_skip:
  "engine_name \<notin> dom engs \<Longrightarrow>
   try_engines isalnum engs exec_time img (engine_name # rest) stats calls =
   try_engines isalnum engs exec_time img rest stats calls"
  by simp

lemma try_engines_raise:
  "engine_name \<in> dom engs \<Longrightarrow> extract_with_engine engs img engine_name = Inl e \<Longrightarrow>
   try_engines isalnum engs exec_time img (engine_name # rest) stats calls =
   try_engines isalnum engs exec_time img rest
     (update_engine_stats stats engine_name False (exec_time engine_name))
     (calls @ [(engine_name, stats)])"
  by (simp add: Let_def)

lemma try_engines_empty:
  "engine_name \<in> dom engs \<Longrightarrow> extract_with_engine engs img engine_name = Inr result \<Longrightarrow>
   py_strip result = [] \<Longrightarrow>
   try_engines isalnum engs exec_time img (engine_name # rest) stats calls =
   try_engines isalnum engs exec_time img rest
     (update_engine_stats stats engine_name True (exec_time engine_name))
     (calls @ [(engine_name, stats)])"
  by (simp add: Let_def)

lemma try_engines_hit:
  "engine_name \<in> dom engs \<Longrightarrow> extract_with_engine engs img engine_name = Inr result \<Longrightarrow>
   py_strip result \<noteq> [] \<Longrightarrow>
   try_engines isalnum engs exec_time img (engine_name # rest) stats calls =
   (\<lparr> ocr_text = py_strip result,
      ocr_confidence = estimate_confidence isalnum result engine_name,
      ocr_engine_used = Some engine_name,
      ocr_execution_time = exec_time engine_name,
      ocr_success = True \<rparr>,
    update_engine_stats stats engine_name True (exec_time engine_name),
    calls @ [(engine_name, stats)])"
  using strip_nonempty [of result] by (simp add: Let_def)

lemma engine_cases:
  obtains (skip) "engine_name \<notin> dom engs"
  | (raise) e where "engine_name \<in> dom engs" "extract_with_engine engs img engine_name = Inl e"
  | (empty) result where "engine_name \<in> dom engs"
      "extract_with_engine engs img engine_name = Inr result" "py_strip result = []"
  | (hit) result where "engine_name \<in> dom engs"
      "extract_with_engine engs img engine_name = Inr result" "py_strip result \<noteq> []"
  by (cases "extract_with_engine engs img engine_name") blast+

lemma try_engines_success_iff:
  "ocr_success (fst (try_engines isalnum engs exec_time img order stats calls))
     \<longleftrightarrow> ocr_text (fst (try_engines isalnum engs exec_time img order stats calls)) \<noteq> []"
proof (induction order arbitrary: stats calls)
  case Nil
  then show ?case by (simp add: all_failed_def)
next
  case (Cons engine_name rest)
  show ?case
  proof (cases rule: engine_cases [where engine_name = engine_name and engs = engs and img = img])
    case skip
    show ?thesis unfolding try_engines_skip [OF skip] by (rule Cons.IH)
  next
    case (raise e)
    show ?thesis unfolding try_engines_raise [OF raise] by (rule Cons.IH)
  next
    case (empty result)
    show ?thesis unfolding try_engines_empty [OF empty] by (rule Cons.IH)
  next
    case (hit result)
    show ?thesis unfolding try_engines_hit [OF hit] using hit(3) by simp
  qed
qed

lemma try_engines_failure:
  "\<not> ocr_success (fst (try_engines isalnum engs exec_time img order stats calls))
     \<Longrightarrow> fst (try_engines isalnum engs exec_time img order stats calls) = all_failed"
proof (induction order arbitrary: stats calls)
  case Nil
  then show ?case by simp
next
  case (Cons engine_name rest)
  show ?case
  proof (cases rule: engine_cases [where engine_name = engine_name and engs = engs and img = img])
    case skip
    show ?thesis using Cons.prems unfolding try_engines_skip [OF skip] by (rule Cons.IH)
  next
    case (raise e)
    show ?thesis using Cons.prems unfolding try_engines_raise [OF raise] by (rule Cons.IH)
  next
    case (empty result)
    show ?thesis using Cons.prems unfolding try_engines_empty [OF empty] by (rule Cons.IH)
  next
    case (hit result)
    show ?thesis using Cons.prems unfolding try_engines_hit [OF hit] by simp
  qed
qed

lemma try_engines_all_fail:
  "\<forall>name \<in> set order. name \<in> dom engs \<longrightarrow> attempt_fails engs img name
     \<Longrightarrow> fst (try_engines isalnum engs exec_time img order stats calls) = all_failed"
proof (induction order arbitrary: stats calls)
  case Nil
  then show ?case by simp
next
  case (Cons engine_name rest)
  from Cons.prems have rest: "\<forall>name \<in> set rest. name \<in> dom engs \<longrightarrow> attempt_fails engs img name"
    by simp
  show ?case
  proof (cases rule: engine_cases [where engine_name = engine_name and engs = engs and img = img])
    case skip
    show ?thesis unfolding try_engines_skip [OF skip] by (rule Cons.IH [OF rest])
  next
    case (raise e)
    show ?thesis unfolding try_engines_raise [OF raise] by (rule Cons.IH [OF rest])
  next
    case (empty result)
    show ?thesis unfolding try_engines_empty [OF empty] by (rule Cons.IH [OF rest])
  next
    case (hit result)
    with Cons.prems have False by (simp add: attempt_fails_def)
    then show ?thesis ..
  qed
qed

lemma fst_extract_text:
  "fst (extract_text isalnum exec_time m img pe pes) =
   fst (try_engines isalnum (engines m) exec_time img (engines_to_try m pe pes) (engine_stats m) [])"
  by (simp add: extract_text_def split: prod.splits)

text \<open>
  Claim C10.  The result of \<open>extract_text\<close> has \<open>success\<close> true exactly when its text is
  not empty.  When every engine that is tried fails, and also whenever \<open>success\<close> is
  false, the result is the record with text \<open>""\<close>, confidence 0.0, no engine and
  \<open>success\<close> false (its execution time is 0).
\<close>

theorem extract_text_success_iff_text:
  "(ocr_success (fst (extract_text isalnum exec_time m img pe pes))
      \<longleftrightarrow> ocr_text (fst (extract_text isalnum exec_time m img pe pes)) \<noteq> []) \<and>
   ((\<forall>name \<in> set (engines_to_try m pe pes).
        name \<in> dom (engines m) \<longrightarrow> attempt_fails (engines m) img name)
      \<longrightarrow> fst (extract_text isalnum exec_time m img pe pes)
            = \<lparr> ocr_text = [], ocr_confidence = 0, ocr_engine_used = None,
                ocr_execution_time = 0, ocr_success = False \<rparr>) \<and>
   (\<not> ocr_success (fst (extract_text isalnum exec_time m img pe pes))
      \<longrightarrow> fst (extract_text isalnum exec_time m img pe pes)
            = \<lparr> ocr_text = [], ocr_confidence = 0, ocr_engine_used = None,
                ocr_execution_time = 0, ocr_success = False \<rparr>)"
proof -
  let ?r = "fst (extract_text isalnum exec_time m img pe pes)"
  have a: "ocr_success ?r \<longleftrightarrow> ocr_text ?r \<noteq> []"
    unfolding fst_extract_text by (rule try_engines_success_iff)
  have b: "?r = all_failed"
    if "\<forall>name \<in> set (engines_to_try m pe pes).
          name \<in> dom (engines m) \<longrightarrow> attempt_fails (engines m) img name"
    unfolding fst_extract_text using that by (rule try_engines_all_fail)
  have c: "?r = all_failed" if "\<not> ocr_success ?r"
    using that unfolding fst_extract_text by (rule try_engines_failure)
  show ?thesis
    using a b c unfolding all_failed_def by blast
qed


theorem extract_text_success_iff_text_witness:
  "fst (extract_text (\<lambda>c. False) (\<lambda>name. 1) whitespace_only_manager () None None)
     = \<lparr> ocr_text = [], ocr_confidence = 0, ocr_engine_used = None,
         ocr_execution_time = 0, ocr_success = False \<rparr>"
proof -
  have order: "engines_to_try whitespace_only_manager None None
                 = [''paddleocr'', ''easyocr'', ''tesseract'', ''builtin'']"
    by (simp add: engines_to_try_def whitespace_only_manager_def)
  have fails: "\<forall>name \<in> set (engines_to_try whitespace_only_manager None None).
                 name \<in> dom (engines whitespace_only_manager)
                   \<longrightarrow> attempt_fails (engines whitespace_only_manager) () name"
    unfolding order
    by (simp add: whitespace_only_manager_def attempt_fails_def extract_with_engine_def
          u_def py_strip_def py_isspace_def)
  from extract_text_success_iff_text
         [of "\<lambda>c. False" "\<lambda>name. 1" whitespace_only_manager "()" None None] fails
  show ?thesis by blast
qed

lemma update_engine_stats_total:
  assumes "stats engine_name = Some s"
  shows "\<exists>s'. update_engine_stats stats engine_name ok t engine_name = Some s' \<and>
              es_total s' = es_total s + 1 \<and>
              es_success s' = (if ok then es_success s + 1 else es_success s)"
  using assms by (simp add: update_engine_stats_def Let_def)

text \<open>
  Claim C4.  When the order of engines starts with \<open>A\<close>, then \<open>B\<close>, both loaded, \<open>A\<close>
  fails on the image (it raises or returns only whitespace) and \<open>B\<close> returns a text that
  is not only whitespace, \<open>extract_text\<close> returns \<open>B\<close>'s text with \<open>engine_used\<close> equal to
  \<open>B\<close> and \<open>success\<close> true.  Exactly two engine calls are made, and the statistics as
  they stand when \<open>B\<close> is called already count \<open>A\<close>'s attempt: the total of \<open>A\<close>'s entry
  is one more than before.
\<close>

theorem extract_text_falls_back:
  assumes order: "engines_to_try m pe pes = A # B # rest"
    and avail: "A \<in> dom (engines m)" "B \<in> dom (engines m)"
    and A_fails: "attempt_fails (engines m) img A"
    and B_ok: "extract_with_engine (engines m) img B = Inr t" "py_strip t \<noteq> []"
    and entry: "engine_stats m A = Some sA"
  shows "\<exists>r m' stats_at_B sA'.
           extract_text isalnum exec_time m img pe pes
             = (r, m', [(A, engine_stats m), (B, stats_at_B)]) \<and>
           ocr_engine_used r = Some B \<and> ocr_success r \<and> ocr_text r = py_strip t \<and>
           stats_at_B A = Some sA' \<and> es_total sA' = es_total sA + 1"
proof -
  obtain ok where after_A:
    "try_engines isalnum (engines m) exec_time img (A # B # rest) (engine_stats m) []
       = try_engines isalnum (engines m) exec_time img (B # rest)
           (update_engine_stats (engine_stats m) A ok (exec_time A)) [(A, engine_stats m)]"
  proof (cases "extract_with_engine (engines m) img A")
    case (Inl e)
    from try_engines_raise [OF avail(1) Inl] show ?thesis using that by force
  next
    case (Inr result)
    with A_fails have "py_strip result = []" by (simp add: attempt_fails_def)
    from try_engines_empty [OF avail(1) Inr this] show ?thesis using that by force
  qed
  let ?stats_at_B = "update_engine_stats (engine_stats m) A ok (exec_time A)"
  obtain sA' where sA': "?stats_at_B A = Some sA'" "es_total sA' = es_total sA + 1"
    using update_engine_stats_total [of "engine_stats m" A sA ok "exec_time A"] entry by blast
  have "try_engines isalnum (engines m) exec_time img (B # rest) ?stats_at_B [(A, engine_stats m)]
          = (\<lparr> ocr_text = py_strip t,
                ocr_confidence = estimate_confidence isalnum t B,
                ocr_engine_used = Some B,
                ocr_execution_time = exec_time B,
                ocr_success = True \<rparr>,
             update_engine_stats ?stats_at_B B True (exec_time B),
             [(A, engine_stats m), (B, ?stats_at_B)])"
    using try_engines_hit [OF avail(2) B_ok, of isalnum exec_time rest ?stats_at_B "[(A, engine_stats m)]"]
    by simp
  with after_A sA' show ?thesis
    by (simp add: extract_text_def order)
qed

theorem extract_text_falls_back_witness:
  "\<exists>r m' stats_at_B sA'.
      extract_text (\<lambda>c. True) (\<lambda>name. 1) paddle_down_manager () None None
        = (r, m', [(''paddleocr'', engine_stats paddle_down_manager), (''easyocr'', stats_at_B)]) \<and>
      ocr_engine_used r = Some ''easyocr'' \<and> ocr_success r \<and> ocr_text r = u ''OK'' \<and>
      stats_at_B ''paddleocr'' = Some sA' \<and> es_total sA' = 1"
proof -
  have order: "engines_to_try paddle_down_manager None None
                 = ''paddleocr'' # ''easyocr'' # [''tesseract'', ''builtin'']"
    by (simp add: engines_to_try_def paddle_down_manager_def init_manager_def)
  have avail: "''paddleocr'' \<in> dom (engines paddle_down_manager)"
    "''easyocr'' \<in> dom (engines paddle_down_manager)"
    by (simp_all add: paddle_down_manager_def init_manager_def)
  have A_fails: "attempt_fails (engines paddle_down_manager) () ''paddleocr''"
    by (simp add: attempt_fails_def extract_with_engine_def paddle_down_manager_def init_manager_def)
  have B_ok: "extract_with_engine (engines paddle_down_manager) () ''easyocr'' = Inr (u ''OK'')"
    by (simp add: extract_with_engine_def paddle_down_manager_def init_manager_def)
  have stripped: "py_strip (u ''OK'') = u ''OK''" "u ''OK'' \<noteq> []"
    by (simp_all add: u_def py_strip_def py_isspace_def)
  have entry: "engine_stats paddle_down_manager ''paddleocr''
                 = Some \<lparr>es_success = 0, es_total = 0, es_avg_time = 0\<rparr>"
    by (simp add: paddle_down_manager_def init_manager_def)
  from extract_text_falls_back [OF order avail A_fails B_ok _ entry, of "\<lambda>c. True" "\<lambda>name. 1"] stripped
  show ?thesis by simp
qed

text \<open>
  Claim C3 fails on the code for an empty result.  \<open>_update_engine_stats\<close> is called with
  \<open>success=True\<close> as soon as the engine returns, before the text is looked at.  With
  Tesseract reading nothing on a blank page and the built-in engine reading its fixed
  text, the result comes from the built-in engine, and Tesseract's entry, already when
  the built-in engine is called, counts one success in one attempt.
\<close>

theorem empty_result_counted_as_success:
  "ocr_engine_used (fst (extract_text (\<lambda>c. True) (\<lambda>name. 1) blank_page_manager () None None))
     = Some ''builtin'' \<and>
   engine_stats (fst (snd (extract_text (\<lambda>c. True) (\<lambda>name. 1) blank_page_manager () None None)))
       ''tesseract''
     = Some \<lparr>es_success = 1, es_total = 1, es_avg_time = 1\<rparr> \<and>
   map fst (snd (snd (extract_text (\<lambda>c. True) (\<lambda>name. 1) blank_page_manager () None None)))
     = [''tesseract'', ''builtin''] \<and>
   snd (last (snd (snd (extract_text (\<lambda>c. True) (\<lambda>name. 1) blank_page_manager () None None))))
       ''tesseract''
     = Some \<lparr>es_success = 1, es_total = 1, es_avg_time = 1\<rparr>"
  by (simp add: extract_text_def blank_page_manager_def init_manager_def engines_to_try_def
        extract_with_engine_def update_engine_stats_def builtin_image_to_string_def
        py_strip_def py_isspace_def Let_def)

section \<open>Properties of execute\_with\_retry\<close>











end
